theory Spec2Isabelle
  imports Main "HOL-Library.AList"
begin

section \<open>Go values and library results\<close>

text \<open>
  The request builder of \<^verbatim>\<open>langs/goreq/goreq.go\<close> (type \<^verbatim>\<open>SuperAgent\<close>) is embedded as a
  record that every method takes and returns. A Go \<^verbatim>\<open>map\<close> is an association list read
  with \<open>map_of\<close> and written with \<open>AList.update\<close>; a \<^verbatim>\<open>range\<close> over a map visits its
  entries in the order of the list.
\<close>

text \<open>A JSON document as \<^verbatim>\<open>encoding/json\<close> reads it.\<close>

datatype json =
    JNull
  | JBool bool
  | JNumber string
  | JString string
  | JArray "json list"
  | JObject "(string \<times> json) list"

text \<open>
  A Go value of dynamic type (\<^verbatim>\<open>interface{}\<close>): the types the builder stores or is handed.
  \<open>DNumber\<close> is a \<^verbatim>\<open>json.Number\<close>, \<open>DFloat64\<close> a \<^verbatim>\<open>float64\<close> (both kept as their decimal
  text, no arithmetic is done on them), \<open>DStrings\<close> a \<^verbatim>\<open>[]string\<close>, \<open>DSlice\<close> a
  \<^verbatim>\<open>[]interface{}\<close>, \<open>DMap\<close> a \<^verbatim>\<open>map[string]interface{}\<close>, \<open>DStruct\<close> a struct with
  its fields.
\<close>

datatype dyn =
    DNil
  | DBool bool
  | DInt int
  | DString string
  | DNumber string
  | DFloat64 string
  | DStrings "string list"
  | DSlice "dyn list"
  | DMap "(string \<times> dyn) list"
  | DStruct "(string \<times> dyn) list"

text \<open>
  What \<^verbatim>\<open>Decode\<close> stores into an \<^verbatim>\<open>interface{}\<close>: after \<^verbatim>\<open>UseNumber()\<close> a number is a
  \<^verbatim>\<open>json.Number\<close> (\<open>decoded True\<close>), otherwise a \<^verbatim>\<open>float64\<close> (\<open>decoded False\<close>).
\<close>

primrec decoded :: "bool \<Rightarrow> json \<Rightarrow> dyn" where
  "decoded n JNull = DNil"
| "decoded n (JBool b) = DBool b"
| "decoded n (JNumber x) = (if n then DNumber x else DFloat64 x)"
| "decoded n (JString x) = DString x"
| "decoded n (JArray xs) = DSlice (map (decoded n) xs)"
| "decoded n (JObject kvs) = DMap (map (map_prod id (decoded n)) kvs)"

text \<open>\<^verbatim>\<open>reflect.Value.Kind()\<close>, as far as \<^verbatim>\<open>Send\<close> and \<^verbatim>\<open>Query\<close> tell kinds apart.\<close>

datatype kind = String | Struct | Slice | Map | Other

fun Kind :: "dyn \<Rightarrow> kind" where
  "Kind (DString x) = String"
| "Kind (DNumber x) = String"
| "Kind (DStruct fs) = Struct"
| "Kind (DStrings xs) = Slice"
| "Kind (DSlice xs) = Slice"
| "Kind (DMap kvs) = Map"
| "Kind v = Other"

datatype error = ErrorsNew string | LibError string

datatype 'a outcome = Return 'a | Panic

type_synonym "values" = "(string \<times> string list) list"

definition Values_Get :: "values \<Rightarrow> string \<Rightarrow> string" where
  "Values_Get v key = (case map_of v key of None \<Rightarrow> [] | Some [] \<Rightarrow> [] | Some (x # xs) \<Rightarrow> x)"

definition Values_Add :: "string \<Rightarrow> string \<Rightarrow> values \<Rightarrow> values" where
  "Values_Add key val v =
     AList.update key ((case map_of v key of None \<Rightarrow> [] | Some vs \<Rightarrow> vs) @ [val]) v"

text \<open>
  A \<^verbatim>\<open>range\<close> over a map visits each key once: the entries are those of
  \<open>AList.clearjunk\<close>, which keeps the entry \<open>map_of\<close> reads.
\<close>

definition keys :: "('k \<times> 'v) list \<Rightarrow> 'k list" where
  "keys m = map fst (AList.clearjunk m)"

type_synonym cookie = "string \<times> string"

typedecl tls_config
typedecl redirect_policy
typedecl logger

record transport =
  Dial :: "int option"
  TLSClientConfig :: "tls_config option"
  Proxy :: "string option"

record request =
  rq_Method :: string
  rq_Url :: string
  rq_Body :: "string option"
  rq_Header_Set :: "(string \<times> string) list"
  rq_Query_Add :: "(string \<times> string) list"
  rq_BasicAuth :: "(string \<times> string) option"
  rq_Cookies :: "cookie list"

record response =
  Status :: string
  Body :: string


section \<open>The library calls the builder makes\<close>

text \<open>
  The builder calls into \<^verbatim>\<open>encoding/json\<close>, \<^verbatim>\<open>net/url\<close>, \<^verbatim>\<open>strings\<close> and \<^verbatim>\<open>net/http\<close>.
  Their code is not part of this package, so every definition below takes them as the
  fields of an \<open>env\<close>; the theorems hold for every \<open>env\<close>.
  \<^item> \<open>json_Decode\<close>: \<^verbatim>\<open>json.NewDecoder(r).Decode(&val)\<close> into an \<^verbatim>\<open>interface{}\<close>, the
    document read or the error;
  \<^item> \<open>json_Decode_map\<close>: the same into a \<^verbatim>\<open>map[string]interface{}\<close>, the entries or
    the error;
  \<^item> \<open>json_Unmarshal_map\<close>, \<open>json_Unmarshal_strings\<close>: \<^verbatim>\<open>json.Unmarshal\<close> into a
    \<^verbatim>\<open>map[string]interface{}\<close> and into a \<^verbatim>\<open>map[string]string\<close>;
  \<^item> \<open>json_Marshal\<close>: \<^verbatim>\<open>json.Marshal\<close>;
  \<^item> \<open>url_ParseQuery\<close>, \<open>url_Parse\<close>, \<open>Values_Encode\<close>: \<^verbatim>\<open>url.ParseQuery\<close>,
    \<^verbatim>\<open>url.Parse\<close> (its error only) and \<^verbatim>\<open>url.Values.Encode\<close>;
  \<^item> \<open>strings_ToLower\<close>: \<^verbatim>\<open>strings.ToLower\<close>;
  \<^item> \<open>http_NewRequest\<close>: the error of \<^verbatim>\<open>http.NewRequest(method, url, body)\<close>, if any;
  \<^item> \<open>Client_Do\<close>: \<^verbatim>\<open>s.Client.Do(req)\<close> with the client's transport and redirect
    policy, the one place where the network is used;
  \<^item> \<open>range_Types\<close>: the entries of the package's \<^verbatim>\<open>Types\<close> table in the order in
    which the \<^verbatim>\<open>range\<close> of \<^verbatim>\<open>EndBytes\<close> visits them (Go leaves the order open);
  \<^item> \<open>DisableTransportSwap\<close>: the package variable of that name.
\<close>

record env =
  json_Decode :: "string \<Rightarrow> error + json"
  json_Decode_map :: "string \<Rightarrow> error + (string \<times> json) list"
  json_Unmarshal_map :: "string \<Rightarrow> error + (string \<times> json) list"
  json_Unmarshal_strings :: "string \<Rightarrow> error + (string \<times> string) list"
  json_Marshal :: "dyn \<Rightarrow> error + string"
  url_ParseQuery :: "string \<Rightarrow> error + values"
  url_Parse :: "string \<Rightarrow> error option"
  Values_Encode :: "values \<Rightarrow> string"
  strings_ToLower :: "string \<Rightarrow> string"
  http_NewRequest :: "string \<Rightarrow> string \<Rightarrow> error option"
  Client_Do :: "transport option \<Rightarrow> redirect_policy option \<Rightarrow> request \<Rightarrow> error + response"
  range_Types :: "(string \<times> string) list"
  DisableTransportSwap :: bool

section \<open>The builder\<close>

record SuperAgent =
  Url :: string
  Method :: string
  Header :: "(string \<times> string) list"
  TargetType :: string
  ForceType :: string
  Data :: "(string \<times> dyn) list"
  SliceData :: "dyn list"
  FormData :: "values"
  QueryData :: "values"
  BounceToRawString :: bool
  RawString :: string
  CheckRedirect :: "redirect_policy option"
  Transport :: transport
  Cookies :: "cookie list"
  Errors :: "error list"
  BasicAuth :: "string \<times> string"
  Debug :: bool
  CurlCommand :: bool
  logger :: "logger option"

definition POST :: string where "POST = ''POST''"
definition GET :: string where "GET = ''GET''"
definition HEAD :: string where "HEAD = ''HEAD''"
definition PUT :: string where "PUT = ''PUT''"
definition DELETE :: string where "DELETE = ''DELETE''"
definition PATCH :: string where "PATCH = ''PATCH''"
definition OPTIONS :: string where "OPTIONS = ''OPTIONS''"

text \<open>
  \<^verbatim>\<open>New()\<close>. The client is represented by its redirect policy (none yet); its cookie jar
  lives inside \<open>Client_Do\<close>. \<open>logger = None\<close> is the default logger on standard error.
\<close>

definition New :: SuperAgent where
  "New = \<lparr> Url = [], Method = [], Header = [], TargetType = ''json'', ForceType = [],
            Data = [], SliceData = [], FormData = [], QueryData = [],
            BounceToRawString = False, RawString = [], CheckRedirect = None,
            Transport = \<lparr> Dial = None, TLSClientConfig = None, Proxy = None \<rparr>,
            Cookies = [], Errors = [], BasicAuth = ([], []), Debug = False,
            CurlCommand = False, logger = None \<rparr>"

definition SetDebug :: "bool \<Rightarrow> SuperAgent \<Rightarrow> SuperAgent" where
  "SetDebug enable s = s\<lparr>Debug := enable\<rparr>"

definition SetCurlCommand :: "bool \<Rightarrow> SuperAgent \<Rightarrow> SuperAgent" where
  "SetCurlCommand enable s = s\<lparr>CurlCommand := enable\<rparr>"

definition SetLogger :: "logger \<Rightarrow> SuperAgent \<Rightarrow> SuperAgent" where
  "SetLogger l s = s\<lparr>logger := Some l\<rparr>"

definition ClearSuperAgent :: "SuperAgent \<Rightarrow> SuperAgent" where
  "ClearSuperAgent s =
     s\<lparr>Url := [], Method := [], Header := [], Data := [], SliceData := [], FormData := [],
       QueryData := [], BounceToRawString := False, RawString := [], ForceType := [],
       TargetType := ''json'', Cookies := [], Errors := []\<rparr>"

definition Get :: "string \<Rightarrow> SuperAgent \<Rightarrow> SuperAgent" where
  "Get targetUrl s = (ClearSuperAgent s)\<lparr>Method := GET, Url := targetUrl, Errors := []\<rparr>"

definition Post :: "string \<Rightarrow> SuperAgent \<Rightarrow> SuperAgent" where
  "Post targetUrl s = (ClearSuperAgent s)\<lparr>Method := POST, Url := targetUrl, Errors := []\<rparr>"

definition Head :: "string \<Rightarrow> SuperAgent \<Rightarrow> SuperAgent" where
  "Head targetUrl s = (ClearSuperAgent s)\<lparr>Method := HEAD, Url := targetUrl, Errors := []\<rparr>"

definition Put :: "string \<Rightarrow> SuperAgent \<Rightarrow> SuperAgent" where
  "Put targetUrl s = (ClearSuperAgent s)\<lparr>Method := PUT, Url := targetUrl, Errors := []\<rparr>"

definition Delete :: "string \<Rightarrow> SuperAgent \<Rightarrow> SuperAgent" where
  "Delete targetUrl s = (ClearSuperAgent s)\<lparr>Method := DELETE, Url := targetUrl, Errors := []\<rparr>"

definition Patch :: "string \<Rightarrow> SuperAgent \<Rightarrow> SuperAgent" where
  "Patch targetUrl s = (ClearSuperAgent s)\<lparr>Method := PATCH, Url := targetUrl, Errors := []\<rparr>"

definition Options :: "string \<Rightarrow> SuperAgent \<Rightarrow> SuperAgent" where
  "Options targetUrl s = (ClearSuperAgent s)\<lparr>Method := OPTIONS, Url := targetUrl, Errors := []\<rparr>"

definition CustomMethod :: "string \<Rightarrow> string \<Rightarrow> SuperAgent \<Rightarrow> SuperAgent" where
  "CustomMethod method targetUrl s =
     (if method = POST then Post targetUrl s
      else if method = GET then Get targetUrl s
      else if method = HEAD then Head targetUrl s
      else if method = PUT then Put targetUrl s
      else if method = DELETE then Delete targetUrl s
      else if method = PATCH then Patch targetUrl s
      else if method = OPTIONS then Options targetUrl s
      else (ClearSuperAgent s)\<lparr>Method := method, Url := targetUrl, Errors := []\<rparr>)"

definition Set :: "string \<Rightarrow> string \<Rightarrow> SuperAgent \<Rightarrow> SuperAgent" where
  "Set param val s = s\<lparr>Header := AList.update param val (Header s)\<rparr>"

definition SetBasicAuth :: "string \<Rightarrow> string \<Rightarrow> SuperAgent \<Rightarrow> SuperAgent" where
  "SetBasicAuth username password s = s\<lparr>BasicAuth := (username, password)\<rparr>"

definition AddCookie :: "cookie \<Rightarrow> SuperAgent \<Rightarrow> SuperAgent" where
  "AddCookie c s = s\<lparr>Cookies := Cookies s @ [c]\<rparr>"

definition AddCookies :: "cookie list \<Rightarrow> SuperAgent \<Rightarrow> SuperAgent" where
  "AddCookies cookies s = s\<lparr>Cookies := Cookies s @ cookies\<rparr>"

definition Types :: "(string \<times> string) list" where
  "Types =
     [(''html'', ''text/html''),
      (''json'', ''application/json''),
      (''xml'', ''application/xml''),
      (''text'', ''text/plain''),
      (''urlencoded'', ''application/x-www-form-urlencoded''),
      (''form'', ''application/x-www-form-urlencoded''),
      (''form-data'', ''application/x-www-form-urlencoded'')]"

definition Type :: "string \<Rightarrow> SuperAgent \<Rightarrow> SuperAgent" where
  "Type typeStr s =
     (case map_of Types typeStr of
        Some _ \<Rightarrow> s\<lparr>ForceType := typeStr\<rparr>
      | None \<Rightarrow>
          s\<lparr>Errors := Errors s @
               [ErrorsNew (''Type func: incorrect type '' @ [CHR 0x22] @ typeStr @ [CHR 0x22])]\<rparr>)"

text \<open>
  \<^verbatim>\<open>queryStruct\<close>. The loop body asserts \<^verbatim>\<open>v.(string)\<close>: on a value of any other type
  the assertion panics.
\<close>

fun queryStruct_loop :: "env \<Rightarrow> (string \<times> dyn) list \<Rightarrow> values \<Rightarrow> values outcome" where
  "queryStruct_loop e [] q = Return q"
| "queryStruct_loop e ((k, DString v) # kvs) q =
     queryStruct_loop e kvs (Values_Add (strings_ToLower e k) v q)"
| "queryStruct_loop e ((k, v) # kvs) q = Panic"

definition queryStruct :: "env \<Rightarrow> dyn \<Rightarrow> SuperAgent \<Rightarrow> SuperAgent outcome" where
  "queryStruct e content s =
     (case json_Marshal e content of
        Inl err \<Rightarrow> Return (s\<lparr>Errors := Errors s @ [err]\<rparr>)
      | Inr marshalContent \<Rightarrow>
          (case json_Unmarshal_map e marshalContent of
             Inl err \<Rightarrow> Return (s\<lparr>Errors := Errors s @ [err]\<rparr>)
           | Inr val \<Rightarrow>
               (case queryStruct_loop e (map (map_prod id (decoded False)) (AList.clearjunk val))
                       (QueryData s) of
                  Panic \<Rightarrow> Panic
                | Return q \<Rightarrow> Return (s\<lparr>QueryData := q\<rparr>))))"

definition queryString :: "env \<Rightarrow> string \<Rightarrow> SuperAgent \<Rightarrow> SuperAgent" where
  "queryString e content s =
     (case json_Unmarshal_strings e content of
        Inr val \<Rightarrow>
          s\<lparr>QueryData := fold (\<lambda>(k, v). Values_Add k v) (AList.clearjunk val) (QueryData s)\<rparr>
      | Inl _ \<Rightarrow>
          (case url_ParseQuery e content of
             Inr queryVal \<Rightarrow>
               s\<lparr>QueryData :=
                    fold (\<lambda>k. Values_Add k (Values_Get queryVal k)) (keys queryVal) (QueryData s)\<rparr>
           | Inl err \<Rightarrow> s\<lparr>Errors := Errors s @ [err]\<rparr>))"

text \<open>\<^verbatim>\<open>v.String()\<close> on a value of kind \<open>String\<close>.\<close>

fun String_of :: "dyn \<Rightarrow> string" where
  "String_of (DString x) = x"
| "String_of (DNumber x) = x"
| "String_of v = []"

definition Query :: "env \<Rightarrow> dyn \<Rightarrow> SuperAgent \<Rightarrow> SuperAgent outcome" where
  "Query e content s =
     (case Kind content of
        String \<Rightarrow> Return (queryString e (String_of content) s)
      | Struct \<Rightarrow> queryStruct e content s
      | _ \<Rightarrow> Return s)"

definition Param :: "string \<Rightarrow> string \<Rightarrow> SuperAgent \<Rightarrow> SuperAgent" where
  "Param key val s = s\<lparr>QueryData := Values_Add key val (QueryData s)\<rparr>"

text \<open>
  \<^verbatim>\<open>Timeout\<close> installs a dial function that holds the duration; \<open>Dial\<close> records it.
\<close>

definition Timeout :: "int \<Rightarrow> SuperAgent \<Rightarrow> SuperAgent" where
  "Timeout timeout s = s\<lparr>Transport := (Transport s)\<lparr>Dial := Some timeout\<rparr>\<rparr>"

definition TLSClientConfig_set :: "tls_config \<Rightarrow> SuperAgent \<Rightarrow> SuperAgent" where
  \<comment> \<open>the method \<^verbatim>\<open>TLSClientConfig\<close>\<close>
  "TLSClientConfig_set config s = s\<lparr>Transport := (Transport s)\<lparr>TLSClientConfig := Some config\<rparr>\<rparr>"

definition Proxy_set :: "env \<Rightarrow> string \<Rightarrow> SuperAgent \<Rightarrow> SuperAgent" where
  \<comment> \<open>the method \<^verbatim>\<open>Proxy\<close>\<close>
  "Proxy_set e proxyUrl s =
     (case url_Parse e proxyUrl of
        Some err \<Rightarrow> s\<lparr>Errors := Errors s @ [err]\<rparr>
      | None \<Rightarrow>
          if proxyUrl = [] then s\<lparr>Transport := (Transport s)\<lparr>Proxy := None\<rparr>\<rparr>
          else s\<lparr>Transport := (Transport s)\<lparr>Proxy := Some proxyUrl\<rparr>\<rparr>)"

definition RedirectPolicy :: "redirect_policy \<Rightarrow> SuperAgent \<Rightarrow> SuperAgent" where
  "RedirectPolicy policy s = s\<lparr>CheckRedirect := Some policy\<rparr>"

subsection \<open>Send\<close>

definition SendSlice :: "dyn list \<Rightarrow> SuperAgent \<Rightarrow> SuperAgent" where
  "SendSlice content s = s\<lparr>SliceData := SliceData s @ content\<rparr>"

text \<open>The loop \<^verbatim>\<open>for k, v := range val { s.Data[k] = v }\<close> of \<^verbatim>\<open>SendStruct\<close> and \<^verbatim>\<open>SendString\<close>.\<close>

definition merge_fields :: "(string \<times> json) list \<Rightarrow> (string \<times> dyn) list \<Rightarrow> (string \<times> dyn) list" where
  "merge_fields val d = fold (\<lambda>(k, v). AList.update k (decoded True v)) (AList.clearjunk val) d"

definition SendStruct :: "env \<Rightarrow> dyn \<Rightarrow> SuperAgent \<Rightarrow> SuperAgent" where
  "SendStruct e content s =
     (case json_Marshal e content of
        Inl err \<Rightarrow> s\<lparr>Errors := Errors s @ [err]\<rparr>
      | Inr marshalContent \<Rightarrow>
          (case json_Decode_map e marshalContent of
             Inl err \<Rightarrow> s\<lparr>Errors := Errors s @ [err]\<rparr>
           | Inr val \<Rightarrow> s\<lparr>Data := merge_fields val (Data s)\<rparr>))"

text \<open>
  The body of the loop over the keys of a parsed form in \<^verbatim>\<open>SendString\<close>: the type switch
  on the old value has the cases \<^verbatim>\<open>[]string\<close> and \<^verbatim>\<open>string\<close> and no default.
\<close>

definition form_key :: "values \<Rightarrow> string \<Rightarrow> (string \<times> dyn) list \<Rightarrow> (string \<times> dyn) list" where
  "form_key formVal k d =
     (case map_of d k of
        Some val \<Rightarrow>
          AList.update k
            (DStrings ([Values_Get formVal k] @
               (case val of DStrings oldValue \<Rightarrow> oldValue | DString oldValue \<Rightarrow> [oldValue] | _ \<Rightarrow> [])))
            d
      | None \<Rightarrow> AList.update k (DString (Values_Get formVal k)) d)"

text \<open>
  \<^verbatim>\<open>SendString\<close>. The switch on the kind of the decoded value is a case distinction on
  the document: an object decodes to a map, an array to a slice.
\<close>

definition SendString :: "env \<Rightarrow> string \<Rightarrow> SuperAgent \<Rightarrow> SuperAgent" where
  "SendString e content s =
     (let s1 =
        (if \<not> BounceToRawString s then
           (case json_Decode e content of
              Inr val \<Rightarrow>
                (case val of
                   JObject kvs \<Rightarrow> s\<lparr>Data := merge_fields kvs (Data s)\<rparr>
                 | JArray xs \<Rightarrow> SendSlice (map (decoded True) xs) s
                 | _ \<Rightarrow> s\<lparr>BounceToRawString := True\<rparr>)
            | Inl _ \<Rightarrow>
                (case url_ParseQuery e content of
                   Inr formVal \<Rightarrow>
                     s\<lparr>Data := fold (form_key formVal) (keys formVal) (Data s),
                       TargetType := ''form''\<rparr>
                 | Inl _ \<Rightarrow> s\<lparr>BounceToRawString := True\<rparr>))
         else s)
      in s1\<lparr>RawString := RawString s1 @ content\<rparr>)"

text \<open>The elements \<^verbatim>\<open>v.Index(i).Interface()\<close> of a value of kind \<open>Slice\<close>.\<close>

fun elements :: "dyn \<Rightarrow> dyn list" where
  "elements (DSlice xs) = xs"
| "elements (DStrings xs) = map DString xs"
| "elements v = []"

definition Send :: "env \<Rightarrow> dyn \<Rightarrow> SuperAgent \<Rightarrow> SuperAgent" where
  "Send e content s =
     (case Kind content of
        String \<Rightarrow> SendString e (String_of content) s
      | Struct \<Rightarrow> SendStruct e content s
      | Slice \<Rightarrow> SendSlice (elements content) s
      | _ \<Rightarrow> s)"

section \<open>Materialising and dispatching the request\<close>

definition changeMapToURLValues :: "(string \<times> dyn) list \<Rightarrow> values" where
  "changeMapToURLValues data =
     fold (\<lambda>(k, v) newUrlValues.
             (case v of
                DString val \<Rightarrow> Values_Add k val newUrlValues
              | DStrings val \<Rightarrow> fold (Values_Add k) val newUrlValues
              | DNumber val \<Rightarrow> Values_Add k val newUrlValues
              | _ \<Rightarrow> newUrlValues))
          (AList.clearjunk data) []"

text \<open>
  A request is represented by what it was built from: the arguments of
  \<^verbatim>\<open>http.NewRequest\<close> (\<open>rq_Body = None\<close> is the \<^verbatim>\<open>nil\<close> body), then the calls
  \<^verbatim>\<open>req.Header.Set\<close>, \<^verbatim>\<open>q.Add\<close>, \<^verbatim>\<open>req.SetBasicAuth\<close> and \<^verbatim>\<open>req.AddCookie\<close> made on it,
  in order.
\<close>

definition NewRequest :: "string \<Rightarrow> string \<Rightarrow> string option \<Rightarrow> request" where
  "NewRequest method url b =
     \<lparr> rq_Method = method, rq_Url = url, rq_Body = b, rq_Header_Set = [], rq_Query_Add = [],
       rq_BasicAuth = None, rq_Cookies = [] \<rparr>"

definition Header_Set :: "string \<Rightarrow> string \<Rightarrow> request \<Rightarrow> request" where
  "Header_Set k v req = req\<lparr>rq_Header_Set := rq_Header_Set req @ [(k, v)]\<rparr>"

text \<open>The part of \<^verbatim>\<open>MakeRequest\<close> after the switch on the method.\<close>

definition MakeRequest_rest :: "SuperAgent \<Rightarrow> request \<Rightarrow> request" where
  "MakeRequest_rest s req =
     (let req1 = fold (\<lambda>(k, v). Header_Set k v) (AList.clearjunk (Header s)) req;
          req2 = req1\<lparr>rq_Query_Add :=
                   concat (map (\<lambda>(k, v). map (Pair k) v) (AList.clearjunk (QueryData s)))\<rparr>;
          req3 = (if BasicAuth s \<noteq> ([], []) then req2\<lparr>rq_BasicAuth := Some (BasicAuth s)\<rparr>
                  else req2)
      in req3\<lparr>rq_Cookies := rq_Cookies req3 @ Cookies s\<rparr>)"

text \<open>\<^verbatim>\<open>contentJson, _ = json.Marshal(v)\<close>: the error is dropped, the bytes are then empty.\<close>

definition Marshal_bytes :: "env \<Rightarrow> dyn \<Rightarrow> string" where
  "Marshal_bytes e v = (case json_Marshal e v of Inl _ \<Rightarrow> [] | Inr b \<Rightarrow> b)"

text \<open>
  \<^verbatim>\<open>MakeRequest\<close>. In the \<^verbatim>\<open>text\<close> and \<^verbatim>\<open>xml\<close> branches the error of \<^verbatim>\<open>http.NewRequest\<close>
  is not checked before \<^verbatim>\<open>req.Header.Set\<close>, and for any other target type \<^verbatim>\<open>req\<close> is
  still \<^verbatim>\<open>nil\<close> when \<^verbatim>\<open>req.URL\<close> is read: both dereference a nil pointer and panic.
\<close>

definition MakeRequest :: "env \<Rightarrow> SuperAgent \<Rightarrow> (error + request) outcome" where
  "MakeRequest e s =
     (if Method s = POST \<or> Method s = PUT \<or> Method s = PATCH then
        (if TargetType s = ''json'' then
           (let contentJson =
                  (if BounceToRawString s then RawString s
                   else if Data s \<noteq> [] then Marshal_bytes e (DMap (Data s))
                   else if SliceData s \<noteq> [] then Marshal_bytes e (DSlice (SliceData s))
                   else [])
            in case http_NewRequest e (Method s) (Url s) of
                 Some err \<Rightarrow> Return (Inl err)
               | None \<Rightarrow>
                   Return (Inr (MakeRequest_rest s
                     (Header_Set ''Content-Type'' ''application/json''
                        (NewRequest (Method s) (Url s) (Some contentJson))))))
         else if TargetType s = ''form'' then
           (let contentForm =
                  (if BounceToRawString s \<or> SliceData s \<noteq> [] then RawString s
                   else Values_Encode e (changeMapToURLValues (Data s)))
            in case http_NewRequest e (Method s) (Url s) of
                 Some err \<Rightarrow> Return (Inl err)
               | None \<Rightarrow>
                   Return (Inr (MakeRequest_rest s
                     (Header_Set ''Content-Type'' ''application/x-www-form-urlencoded''
                        (NewRequest (Method s) (Url s) (Some contentForm))))))
         else if TargetType s = ''text'' then
           (case http_NewRequest e (Method s) (Url s) of
              Some err \<Rightarrow> Panic
            | None \<Rightarrow>
                Return (Inr (MakeRequest_rest s
                  (Header_Set ''Content-Type'' ''text/plain''
                     (NewRequest (Method s) (Url s) (Some (RawString s)))))))
         else if TargetType s = ''xml'' then
           (case http_NewRequest e (Method s) (Url s) of
              Some err \<Rightarrow> Panic
            | None \<Rightarrow>
                Return (Inr (MakeRequest_rest s
                  (Header_Set ''Content-Type'' ''application/xml''
                     (NewRequest (Method s) (Url s) (Some (RawString s)))))))
         else Panic)
      else if Method s = [] then Return (Inl (ErrorsNew ''No method specified''))
      else
        (case http_NewRequest e (Method s) (Url s) of
           Some err \<Rightarrow> Return (Inl err)
         | None \<Rightarrow> Return (Inr (MakeRequest_rest s (NewRequest (Method s) (Url s) None)))))"

text \<open>
  What a dispatch gives back: the three results of \<^verbatim>\<open>EndBytes\<close> (\<open>errs = []\<close> is the
  \<^verbatim>\<open>nil\<close> list), the requests handed to the network (\<open>sent\<close>), and the builder as the
  call leaves it (\<open>agent\<close>).
\<close>

record dispatch =
  resp :: "response option"
  body :: string
  errs :: "error list"
  sent :: "request list"
  agent :: SuperAgent

text \<open>\<^verbatim>\<open>m[key]\<close> on a \<^verbatim>\<open>map[string]string\<close>: the empty string when the key is missing.\<close>

definition at_key :: "(string \<times> string) list \<Rightarrow> string \<Rightarrow> string" where
  "at_key m key = (case map_of m key of None \<Rightarrow> [] | Some v \<Rightarrow> v)"

text \<open>The switch on \<^verbatim>\<open>s.ForceType\<close> at the head of \<^verbatim>\<open>EndBytes\<close>.\<close>

definition resolve_TargetType :: "env \<Rightarrow> SuperAgent \<Rightarrow> SuperAgent" where
  "resolve_TargetType e s =
     (if ForceType s = ''json'' \<or> ForceType s = ''form'' \<or> ForceType s = ''xml''
         \<or> ForceType s = ''text''
      then s\<lparr>TargetType := ForceType s\<rparr>
      else
        fold (\<lambda>(k, v) s'.
                if at_key (Header s') ''Content-Type'' = v then s'\<lparr>TargetType := k\<rparr> else s')
             (range_Types e) s)"

text \<open>
  \<^verbatim>\<open>EndBytes\<close>, called with no callback. The debug and curl dumps go to the logger and
  change none of the results; they are left out.
\<close>

definition EndBytes :: "env \<Rightarrow> SuperAgent \<Rightarrow> dispatch outcome" where
  "EndBytes e s =
     (if length (Errors s) \<noteq> 0 then
        Return \<lparr> resp = None, body = [], errs = Errors s, sent = [], agent = s \<rparr>
      else
        (let s1 = resolve_TargetType e s;
             s2 = (if length (Data s1) \<noteq> 0 \<and> length (SliceData s1) \<noteq> 0
                   then s1\<lparr>BounceToRawString := True\<rparr> else s1)
         in case MakeRequest e s2 of
              Panic \<Rightarrow> Panic
            | Return (Inl err) \<Rightarrow>
                Return \<lparr> resp = None, body = [], errs = Errors s2 @ [err], sent = [],
                         agent = s2\<lparr>Errors := Errors s2 @ [err]\<rparr> \<rparr>
            | Return (Inr req) \<Rightarrow>
                (case Client_Do e (if DisableTransportSwap e then None else Some (Transport s2))
                        (CheckRedirect s2) req of
                   Inl err \<Rightarrow>
                     Return \<lparr> resp = None, body = [], errs = Errors s2 @ [err], sent = [req],
                              agent = s2\<lparr>Errors := Errors s2 @ [err]\<rparr> \<rparr>
                 | Inr r \<Rightarrow>
                     Return \<lparr> resp = Some r, body = Body r, errs = [], sent = [req],
                              agent = s2 \<rparr>)))"

definition End :: "env \<Rightarrow> SuperAgent \<Rightarrow> dispatch outcome" where
  "End e s = EndBytes e s"

section \<open>Chains of builder calls\<close>

text \<open>
  The configuration methods, as the calls of a chain; the verbs \<open>Get\<close> ... \<open>CustomMethod\<close>
  are not among them. \<open>chain\<close> runs the calls in order and stops at a panic.
\<close>

datatype call =
    CSetDebug bool
  | CSetCurlCommand bool
  | CSetLogger logger
  | CSet string string
  | CSetBasicAuth string string
  | CAddCookie cookie
  | CAddCookies "cookie list"
  | CType string
  | CQuery dyn
  | CParam string string
  | CTimeout int
  | CTLSClientConfig tls_config
  | CProxy string
  | CRedirectPolicy redirect_policy
  | CSend dyn

fun do_call :: "env \<Rightarrow> call \<Rightarrow> SuperAgent \<Rightarrow> SuperAgent outcome" where
  "do_call e (CSetDebug b) s = Return (SetDebug b s)"
| "do_call e (CSetCurlCommand b) s = Return (SetCurlCommand b s)"
| "do_call e (CSetLogger l) s = Return (SetLogger l s)"
| "do_call e (CSet k v) s = Return (Set k v s)"
| "do_call e (CSetBasicAuth u p) s = Return (SetBasicAuth u p s)"
| "do_call e (CAddCookie c) s = Return (AddCookie c s)"
| "do_call e (CAddCookies cs) s = Return (AddCookies cs s)"
| "do_call e (CType t) s = Return (Type t s)"
| "do_call e (CQuery c) s = Query e c s"
| "do_call e (CParam k v) s = Return (Param k v s)"
| "do_call e (CTimeout d) s = Return (Timeout d s)"
| "do_call e (CTLSClientConfig c) s = Return (TLSClientConfig_set c s)"
| "do_call e (CProxy u) s = Return (Proxy_set e u s)"
| "do_call e (CRedirectPolicy p) s = Return (RedirectPolicy p s)"
| "do_call e (CSend c) s = Return (Send e c s)"

fun chain :: "env \<Rightarrow> call list \<Rightarrow> SuperAgent \<Rightarrow> SuperAgent outcome" where
  "chain e [] s = Return s"
| "chain e (c # cs) s = (case do_call e c s of Panic \<Rightarrow> Panic | Return s' \<Rightarrow> chain e cs s')"

text \<open>The strings a chain hands to \<^verbatim>\<open>SendString\<close>, in call order.\<close>

fun sent_strings :: "call list \<Rightarrow> string list" where
  "sent_strings [] = []"
| "sent_strings (CSend c # cs) =
     (if Kind c = String then String_of c # sent_strings cs else sent_strings cs)"
| "sent_strings (c # cs) = sent_strings cs"

section \<open>A sample environment\<close>

text \<open>
  The examples below run the builder in an environment that answers the library calls
  from a table: the results of the Go library on the few strings and values the
  examples use. On any other input the parsers and \<^verbatim>\<open>json.Marshal\<close> answer with an error;
  \<^verbatim>\<open>url.Parse\<close> and \<^verbatim>\<open>http.NewRequest\<close> accept what they are given, and the network
  answers every request with the same response.
\<close>

definition sample_env :: env where
  \<open>sample_env =
     \<lparr> json_Decode = (\<lambda>c.
         if c = ''{"a":1}'' then Inr (JObject [(''a'', JNumber ''1'')])
         else if c = ''[1,2]'' then Inr (JArray [JNumber ''1'', JNumber ''2''])
         else if c = ''123'' then Inr (JNumber ''123'')
         else Inl (LibError ''invalid character'')),
       json_Decode_map = (\<lambda>c.
         if c = ''{"Age":3}'' then Inr [(''Age'', JNumber ''3'')]
         else Inl (LibError ''invalid character'')),
       json_Unmarshal_map = (\<lambda>c.
         if c = ''{"Age":3}'' then Inr [(''Age'', JNumber ''3'')]
         else Inl (LibError ''invalid character'')),
       json_Unmarshal_strings = (\<lambda>c. Inl (LibError ''invalid character'')),
       json_Marshal = (\<lambda>v.
         if v = DStruct [(''Age'', DInt 3)] then Inr ''{"Age":3}''
         else Inl (LibError ''unsupported value'')),
       url_ParseQuery = (\<lambda>c.
         if c = ''a=2'' then Inr [(''a'', [''2''])]
         else if c = ''a=3'' then Inr [(''a'', [''3''])]
         else if c = ''123'' then Inr [(''123'', [''''])]
         else Inl (LibError ''invalid URL escape'')),
       url_Parse = (\<lambda>u. None),
       Values_Encode = (\<lambda>v. if v = [(''a'', [''2''])] then ''a=2'' else []),
       strings_ToLower = (\<lambda>k. if k = ''Age'' then ''age'' else k),
       http_NewRequest = (\<lambda>method url. None),
       Client_Do = (\<lambda>t p req. Inr \<lparr> Status = ''200 OK'', Body = ''ok'' \<rparr>),
       range_Types = Types,
       DisableTransportSwap = False \<rparr>\<close>

text \<open>A JSON document that is neither an object nor an array.\<close>

definition scalar :: "json \<Rightarrow> bool" where
  "scalar v = (case v of JObject kvs \<Rightarrow> False | JArray xs \<Rightarrow> False | _ \<Rightarrow> True)"


section \<open>The raw body\<close>

lemma RawString_SendString: "RawString (SendString e c s) = RawString s @ c"
  by (simp add: SendString_def Let_def SendSlice_def split: sum.splits json.splits)

lemma RawString_Send:
  "RawString (Send e c s) = RawString s @ (if Kind c = String then String_of c else [])"
  by (simp add: Send_def RawString_SendString SendStruct_def SendSlice_def
      split: kind.splits sum.splits)

lemma RawString_Query: "Query e c s = Return s' \<Longrightarrow> RawString s' = RawString s"
  by (auto simp: Query_def queryString_def queryStruct_def
      split: kind.splits sum.splits outcome.splits)

lemma RawString_do_call:
  "do_call e c s = Return s' \<Longrightarrow> RawString s' = RawString s @ concat (sent_strings [c])"
  by (cases c)
    (auto simp: SetDebug_def SetCurlCommand_def SetLogger_def Set_def SetBasicAuth_def
      AddCookie_def AddCookies_def Type_def Param_def Timeout_def TLSClientConfig_set_def
      Proxy_set_def RedirectPolicy_def RawString_Send RawString_Query
      split: option.splits)

lemma sent_strings_Cons: "sent_strings (c # cs) = sent_strings [c] @ sent_strings cs"
  by (cases c) auto

lemma RawString_chain:
  "chain e cs s = Return s' \<Longrightarrow> RawString s' = RawString s @ concat (sent_strings cs)"
proof (induction cs arbitrary: s)
  case Nil
  then show ?case by simp
next
  case (Cons c cs)
  then obtain s1 where 1: "do_call e c s = Return s1" and 2: "chain e cs s1 = Return s'"
    by (auto split: outcome.splits)
  from Cons.IH [OF 2] RawString_do_call [OF 1] show ?case
    by (subst sent_strings_Cons) simp
qed

text \<open>
  Claim C8. After any sequence of \<^verbatim>\<open>Send\<close> calls with string arguments the raw body is the
  old raw body followed by the arguments in call order, whichever branch each call took;
  counted from a verb call, it is the concatenation of the arguments alone.
\<close>

theorem C8_RawString_is_concat:
  "RawString (fold (\<lambda>c. Send e (DString c)) cs s) = RawString s @ concat cs \<and>
   RawString (fold (\<lambda>c. Send e (DString c)) cs (CustomMethod m u s)) = concat cs"
proof -
  have a: "RawString (fold (\<lambda>c. Send e (DString c)) cs t) = RawString t @ concat cs" for t
    by (induction cs arbitrary: t) (simp_all add: RawString_Send)
  have "RawString (CustomMethod m u s) = []"
    by (simp add: CustomMethod_def Get_def Post_def Head_def Put_def Delete_def Patch_def
        Options_def ClearSuperAgent_def)
  with a show ?thesis by simp
qed

section \<open>Recorded errors\<close>

text \<open>
  Claim C2. A dispatch of a builder with a non-empty error list hands no request to the
  network and returns a \<^verbatim>\<open>nil\<close> response, an empty body and the error list as it stands,
  leaving the builder as it was.
\<close>

theorem C2_errors_short_circuit:
  "Errors s \<noteq> [] \<Longrightarrow>
   EndBytes e s = Return \<lparr> resp = None, body = [], errs = Errors s, sent = [], agent = s \<rparr> \<and>
   End e s = EndBytes e s"
  by (simp add: EndBytes_def End_def)

theorem C2_errors_short_circuit_witness:
  "Errors (Type ''bogus'' (Post ''http://h/'' New)) \<noteq> [] \<and>
   EndBytes sample_env (Type ''bogus'' (Post ''http://h/'' New)) =
     Return \<lparr> resp = None, body = [],
              errs = [ErrorsNew (''Type func: incorrect type '' @ [CHR 0x22] @ ''bogus'' @ [CHR 0x22])],
              sent = [], agent = Type ''bogus'' (Post ''http://h/'' New) \<rparr>"
proof -
  have e: "Errors (Type ''bogus'' (Post ''http://h/'' New)) =
      [ErrorsNew (''Type func: incorrect type '' @ [CHR 0x22] @ ''bogus'' @ [CHR 0x22])]"
    by (simp add: Type_def Types_def Post_def ClearSuperAgent_def New_def)
  then have h: "Errors (Type ''bogus'' (Post ''http://h/'' New)) \<noteq> []" by simp
  from C2_errors_short_circuit [OF h, of sample_env] e h show ?thesis by simp
qed

section \<open>Raw-string mode\<close>

lemma fold_TargetType_only:
  assumes "\<And>x s. \<exists>t. f x s = s\<lparr>TargetType := t\<rparr>"
  shows "\<exists>t. fold f xs s = s\<lparr>TargetType := t\<rparr>"
proof (induction xs arbitrary: s)
  case Nil
  show ?case by (rule exI [of _ "TargetType s"]) simp
next
  case (Cons x xs)
  from assms obtain t1 where 1: "f x s = s\<lparr>TargetType := t1\<rparr>" by blast
  from Cons.IH obtain t2 where 2: "fold f xs (f x s) = (f x s)\<lparr>TargetType := t2\<rparr>" by blast
  have "fold f (x # xs) s = s\<lparr>TargetType := t2\<rparr>" by (simp add: 2) (simp add: 1)
  then show ?case by blast
qed

lemma Types_range_only_TargetType:
  "\<exists>t. fold (\<lambda>(k, v) s'.
               if at_key (Header s') ''Content-Type'' = v then s'\<lparr>TargetType := k\<rparr> else s')
            xs (s::SuperAgent) = s\<lparr>TargetType := t\<rparr>"
proof (rule fold_TargetType_only)
  fix x :: "string \<times> string" and s' :: SuperAgent
  obtain k v where x: "x = (k, v)" by (cases x)
  show "\<exists>t. (case x of (k, v) \<Rightarrow> \<lambda>s'.
                if at_key (Header s') ''Content-Type'' = v then s'\<lparr>TargetType := k\<rparr> else s') s' =
              s'\<lparr>TargetType := t\<rparr>"
  proof (cases "at_key (Header s') ''Content-Type'' = v")
    case True
    then show ?thesis by (simp add: x) blast
  next
    case False
    then have "(case x of (k, v) \<Rightarrow> \<lambda>s'.
              if at_key (Header s') ''Content-Type'' = v then s'\<lparr>TargetType := k\<rparr> else s') s' =
            s'\<lparr>TargetType := TargetType s'\<rparr>"
      by (simp add: x)
    then show ?thesis by blast
  qed
qed

lemma resolve_only_TargetType: "\<exists>t. resolve_TargetType e s = s\<lparr>TargetType := t\<rparr>"
proof (cases "ForceType s = ''json'' \<or> ForceType s = ''form'' \<or> ForceType s = ''xml''
         \<or> ForceType s = ''text''")
  case True
  then show ?thesis unfolding resolve_TargetType_def by (simp only: if_True) blast
next
  case False
  with Types_range_only_TargetType [of "range_Types e" s] show ?thesis
    unfolding resolve_TargetType_def by (simp only: if_False)
qed










section \<open>The form branch of SendString\<close>

lemma SendString_form:
  assumes "\<not> BounceToRawString s" and "json_Decode e c = Inl e1"
    and "url_ParseQuery e c = Inr formVal"
  shows "SendString e c s =
    s\<lparr>Data := fold (form_key formVal) (keys formVal) (Data s), TargetType := ''form'',
      RawString := RawString s @ c\<rparr>"
  using assms by (simp add: SendString_def)

lemma SendString_raw:
  assumes "\<not> BounceToRawString s" and "json_Decode e c = Inl e1"
    and "url_ParseQuery e c = Inl e2"
  shows "SendString e c s = s\<lparr>BounceToRawString := True, RawString := RawString s @ c\<rparr>"
  using assms by (simp add: SendString_def)

lemma SendString_scalar:
  assumes "\<not> BounceToRawString s" and "json_Decode e c = Inr v" and "scalar v"
  shows "SendString e c s = s\<lparr>BounceToRawString := True, RawString := RawString s @ c\<rparr>"
  using assms by (cases v) (simp_all add: SendString_def scalar_def)

text \<open>
  Claim C4, as the code has it. While the raw-string flag is clear: a string that does
  not decode as JSON is parsed as a form; if that succeeds its keys are merged into
  \<open>Data\<close>, the target type becomes \<^verbatim>\<open>form\<close> and the flag stays clear, and if it fails the
  flag is set. A string that decodes to a scalar sets the flag at once: the form parser
  is not consulted, whatever it would answer.
\<close>

theorem C4_form_fallback:
  assumes "\<not> BounceToRawString s"
  shows "(\<forall>e1 formVal. json_Decode e c = Inl e1 \<and> url_ParseQuery e c = Inr formVal \<longrightarrow>
            SendString e c s =
              s\<lparr>Data := fold (form_key formVal) (keys formVal) (Data s), TargetType := ''form'',
                RawString := RawString s @ c\<rparr>) \<and>
         (\<forall>e1 e2. json_Decode e c = Inl e1 \<and> url_ParseQuery e c = Inl e2 \<longrightarrow>
            SendString e c s = s\<lparr>BounceToRawString := True, RawString := RawString s @ c\<rparr>) \<and>
         (\<forall>v. json_Decode e c = Inr v \<and> scalar v \<longrightarrow>
            SendString e c s = s\<lparr>BounceToRawString := True, RawString := RawString s @ c\<rparr>)"
  using assms SendString_form SendString_raw SendString_scalar by blast

theorem C4_form_fallback_witness:
  "\<not> BounceToRawString (Post ''http://h/'' New) \<and>
   json_Decode sample_env ''a=2'' = Inl (LibError ''invalid character'') \<and>
   url_ParseQuery sample_env ''a=2'' = Inr [(''a'', [''2''])] \<and>
   SendString sample_env ''a=2'' (Post ''http://h/'' New) =
     (Post ''http://h/'' New)\<lparr>Data := [(''a'', DString ''2'')], TargetType := ''form'',
        RawString := ''a=2''\<rparr> \<and>
   json_Decode sample_env ''a=%zz'' = Inl (LibError ''invalid character'') \<and>
   url_ParseQuery sample_env ''a=%zz'' = Inl (LibError ''invalid URL escape'') \<and>
   SendString sample_env ''a=%zz'' (Post ''http://h/'' New) =
     (Post ''http://h/'' New)\<lparr>BounceToRawString := True, RawString := ''a=%zz''\<rparr> \<and>
   json_Decode sample_env ''123'' = Inr (JNumber ''123'') \<and> scalar (JNumber ''123'') \<and>
   SendString sample_env ''123'' (Post ''http://h/'' New) =
     (Post ''http://h/'' New)\<lparr>BounceToRawString := True, RawString := ''123''\<rparr>"
proof -
  have a: "\<not> BounceToRawString (Post ''http://h/'' New)"
    by (simp add: Post_def ClearSuperAgent_def)
  have b: "json_Decode sample_env ''a=2'' = Inl (LibError ''invalid character'')"
    by (simp add: sample_env_def)
  have c: "url_ParseQuery sample_env ''a=2'' = Inr [(''a'', [''2''])]"
    by (simp add: sample_env_def)
  have d: "fold (form_key [(''a'', [''2''])]) (keys [(''a'', [''2''])]) (Data (Post ''http://h/'' New)) =
      [(''a'', DString ''2'')]"
    by (simp add: keys_def form_key_def Values_Get_def Post_def ClearSuperAgent_def AList.delete_eq)
  have e: "RawString (Post ''http://h/'' New) = []"
    by (simp add: Post_def ClearSuperAgent_def)
  from C4_form_fallback [OF a, of sample_env "''a=2''"] b c
  have "SendString sample_env ''a=2'' (Post ''http://h/'' New) =
      (Post ''http://h/'' New)\<lparr>Data := fold (form_key [(''a'', [''2''])]) (keys [(''a'', [''2''])])
          (Data (Post ''http://h/'' New)),
        TargetType := ''form'', RawString := RawString (Post ''http://h/'' New) @ ''a=2''\<rparr>"
    by blast
  then have 1: "SendString sample_env ''a=2'' (Post ''http://h/'' New) =
     (Post ''http://h/'' New)\<lparr>Data := [(''a'', DString ''2'')], TargetType := ''form'',
        RawString := ''a=2''\<rparr>"
    by (simp only: d e append_Nil)
  have f: "json_Decode sample_env ''a=%zz'' = Inl (LibError ''invalid character'')"
    by (simp add: sample_env_def)
  have g: "url_ParseQuery sample_env ''a=%zz'' = Inl (LibError ''invalid URL escape'')"
    by (simp add: sample_env_def)
  from C4_form_fallback [OF a, of sample_env "''a=%zz''"] f g
  have "SendString sample_env ''a=%zz'' (Post ''http://h/'' New) =
      (Post ''http://h/'' New)\<lparr>BounceToRawString := True,
        RawString := RawString (Post ''http://h/'' New) @ ''a=%zz''\<rparr>"
    by blast
  then have 2: "SendString sample_env ''a=%zz'' (Post ''http://h/'' New) =
     (Post ''http://h/'' New)\<lparr>BounceToRawString := True, RawString := ''a=%zz''\<rparr>"
    by (simp only: e append_Nil)
  have h: "json_Decode sample_env ''123'' = Inr (JNumber ''123'')"
    by (simp add: sample_env_def)
  have i: "scalar (JNumber ''123'')"
    by (simp add: scalar_def)
  from C4_form_fallback [OF a, of sample_env "''123''"] h i
  have "SendString sample_env ''123'' (Post ''http://h/'' New) =
      (Post ''http://h/'' New)\<lparr>BounceToRawString := True,
        RawString := RawString (Post ''http://h/'' New) @ ''123''\<rparr>"
    by blast
  then have 3: "SendString sample_env ''123'' (Post ''http://h/'' New) =
     (Post ''http://h/'' New)\<lparr>BounceToRawString := True, RawString := ''123''\<rparr>"
    by (simp only: e append_Nil)
  from a b c 1 f g 2 h i 3 show ?thesis by (intro conjI)
qed

text \<open>
  The claim as stated fails on \<^verbatim>\<open>Send("123")\<close>: the string decodes to a JSON number and
  would parse as a form with the one key \<^verbatim>\<open>123\<close>, yet the flag is set, nothing is merged
  and the target type stays \<^verbatim>\<open>json\<close>.
\<close>

theorem C4_scalar_counterexample:
  "json_Decode sample_env ''123'' = Inr (JNumber ''123'') \<and>
   url_ParseQuery sample_env ''123'' = Inr [(''123'', [''''])] \<and>
   SendString sample_env ''123'' (Post ''http://h/'' New) =
     (Post ''http://h/'' New)\<lparr>BounceToRawString := True, RawString := ''123''\<rparr> \<and>
   BounceToRawString (SendString sample_env ''123'' (Post ''http://h/'' New)) \<and>
   TargetType (SendString sample_env ''123'' (Post ''http://h/'' New)) = ''json'' \<and>
   Data (SendString sample_env ''123'' (Post ''http://h/'' New)) = []"
  by (simp add: sample_env_def SendString_def Post_def ClearSuperAgent_def New_def)








section \<open>Query with a struct\<close>

lemma queryStruct_loop_strings:
  "queryStruct_loop e (map (\<lambda>(k, v). (k, DString v)) kvs) q =
     Return (fold (\<lambda>(k, v). Values_Add (strings_ToLower e k) v) kvs q)"
  by (induction kvs arbitrary: q) auto

lemma queryStruct_loop_Panic:
  "(k, v) \<in> set kvs \<Longrightarrow> \<forall>x. v \<noteq> DString x \<Longrightarrow> queryStruct_loop e kvs q = Panic"
  by (induction e kvs q rule: queryStruct_loop.induct) auto

lemma queryStruct_Panic:
  assumes "json_Marshal e content = Inr b" and "json_Unmarshal_map e b = Inr val"
    and "map_of val k = Some v" and "\<forall>x. v \<noteq> JString x"
  shows "queryStruct e content s = Panic"
proof -
  from assms(3) have "(k, v) \<in> set (AList.clearjunk val)"
    by (metis map_of_SomeD map_of_clearjunk)
  then have "(k, decoded False v) \<in> set (map (map_prod id (decoded False)) (AList.clearjunk val))"
    by force
  moreover from assms(4) have "\<forall>x. decoded False v \<noteq> DString x"
    by (cases v) simp_all
  ultimately have "queryStruct_loop e (map (map_prod id (decoded False)) (AList.clearjunk val))
      (QueryData s) = Panic"
    by (rule queryStruct_loop_Panic)
  with assms(1,2) show ?thesis by (simp add: queryStruct_def)
qed

text \<open>
  Claim C6 fails on the code. \<^verbatim>\<open>Query\<close> with a struct that has an integer field: the field
  comes back from the JSON round trip as a number, the assertion \<^verbatim>\<open>v.(string)\<close> in
  \<^verbatim>\<open>queryStruct\<close> panics, and no error is appended.
\<close>

theorem C6_queryStruct_panics:
  \<open>json_Marshal sample_env (DStruct [(''Age'', DInt 3)]) = Inr ''{"Age":3}'' \<and>
   json_Unmarshal_map sample_env ''{"Age":3}'' = Inr [(''Age'', JNumber ''3'')] \<and>
   Query sample_env (DStruct [(''Age'', DInt 3)]) (Get ''http://h/'' New) = Panic\<close>
  by (simp add: sample_env_def Query_def queryStruct_def AList.delete_eq)

section \<open>The target type at dispatch\<close>




lemma EndBytes_agent:
  assumes "Errors s = []" and "EndBytes e s = Return d"
  shows "TargetType (agent d) = TargetType (resolve_TargetType e s) \<and>
    BounceToRawString (agent d) =
      (BounceToRawString s \<or> (Data s \<noteq> [] \<and> SliceData s \<noteq> []))"
proof -
  obtain t where t: "resolve_TargetType e s = s\<lparr>TargetType := t\<rparr>"
    using resolve_only_TargetType by blast
  from assms show ?thesis
    by (auto simp: EndBytes_def t Let_def split: outcome.splits sum.splits if_splits)
qed





section \<open>The verbs\<close>







section \<open>The materialised request\<close>

lemma fold_Header_Set:
  "fold (\<lambda>(k, v). Header_Set k v) xs req = req\<lparr>rq_Header_Set := rq_Header_Set req @ xs\<rparr>"
  by (induction xs arbitrary: req) (auto simp: Header_Set_def)

lemma MakeRequest_rest_fields:
  "rq_Body (MakeRequest_rest s req) = rq_Body req \<and>
   rq_Header_Set (MakeRequest_rest s req) = rq_Header_Set req @ AList.clearjunk (Header s)"
  by (simp add: MakeRequest_rest_def fold_Header_Set Let_def)

lemma resolve_fields:
  "Errors (resolve_TargetType e s) = Errors s \<and> Data (resolve_TargetType e s) = Data s \<and>
   SliceData (resolve_TargetType e s) = SliceData s \<and>
   BounceToRawString (resolve_TargetType e s) = BounceToRawString s \<and>
   RawString (resolve_TargetType e s) = RawString s \<and>
   Method (resolve_TargetType e s) = Method s \<and> Url (resolve_TargetType e s) = Url s \<and>
   Header (resolve_TargetType e s) = Header s \<and>
   Transport (resolve_TargetType e s) = Transport s \<and>
   CheckRedirect (resolve_TargetType e s) = CheckRedirect s"
proof -
  obtain t where t: "resolve_TargetType e s = s\<lparr>TargetType := t\<rparr>"
    using resolve_only_TargetType by blast
  show ?thesis by (simp add: t)
qed

lemma EndBytes_no_errors:
  assumes "Errors s = []"
  shows "EndBytes e s =
    (case MakeRequest e ((resolve_TargetType e s)\<lparr>BounceToRawString :=
             BounceToRawString s \<or> (Data s \<noteq> [] \<and> SliceData s \<noteq> [])\<rparr>) of
       Panic \<Rightarrow> Panic
     | Return (Inl err) \<Rightarrow>
         Return \<lparr> resp = None, body = [], errs = [err], sent = [],
           agent = (resolve_TargetType e s)\<lparr>BounceToRawString :=
             BounceToRawString s \<or> (Data s \<noteq> [] \<and> SliceData s \<noteq> []), Errors := [err]\<rparr> \<rparr>
     | Return (Inr req) \<Rightarrow>
         (case Client_Do e (if DisableTransportSwap e then None else Some (Transport s))
                 (CheckRedirect s) req of
            Inl err \<Rightarrow>
              Return \<lparr> resp = None, body = [], errs = [err], sent = [req],
                agent = (resolve_TargetType e s)\<lparr>BounceToRawString :=
                  BounceToRawString s \<or> (Data s \<noteq> [] \<and> SliceData s \<noteq> []), Errors := [err]\<rparr> \<rparr>
          | Inr r \<Rightarrow>
              Return \<lparr> resp = Some r, body = Body r, errs = [], sent = [req],
                agent = (resolve_TargetType e s)\<lparr>BounceToRawString :=
                  BounceToRawString s \<or> (Data s \<noteq> [] \<and> SliceData s \<noteq> [])\<rparr> \<rparr>))"
proof -
  obtain t where t: "resolve_TargetType e s = s\<lparr>TargetType := t\<rparr>"
    using resolve_only_TargetType by blast
  consider (both) "Data s \<noteq> []" and "SliceData s \<noteq> []" | (no_data) "Data s = []"
    | (no_slice) "SliceData s = []"
    by blast
  then show ?thesis
  proof cases
    case both
    with assms show ?thesis
      by (simp add: EndBytes_def t Let_def cong: outcome.case_cong sum.case_cong)
  next
    case no_data
    with assms show ?thesis
      by (simp add: EndBytes_def t Let_def cong: outcome.case_cong sum.case_cong)
  next
    case no_slice
    with assms show ?thesis
      by (simp add: EndBytes_def t Let_def cong: outcome.case_cong sum.case_cong)
  qed
qed

lemma MakeRequest_no_body:
  assumes "Method s \<noteq> POST" and "Method s \<noteq> PUT" and "Method s \<noteq> PATCH"
  shows "MakeRequest e s =
    (if Method s = [] then Return (Inl (ErrorsNew ''No method specified''))
     else case http_NewRequest e (Method s) (Url s) of
            Some err \<Rightarrow> Return (Inl err)
          | None \<Rightarrow> Return (Inr (MakeRequest_rest s (NewRequest (Method s) (Url s) None))))"
  using assms by (simp add: MakeRequest_def)


text \<open>
  Claim C10. For a method other than \<^verbatim>\<open>POST\<close>, \<^verbatim>\<open>PUT\<close> and \<^verbatim>\<open>PATCH\<close> the dispatch returns
  (it does not panic), and every request it hands to the network has the \<^verbatim>\<open>nil\<close> body and
  no header but the builder's own, whatever \<^verbatim>\<open>Send\<close> has stored. With the empty method it
  hands nothing to the network and returns no response, an empty body and a non-empty
  error list.
\<close>

theorem C10_no_body_for_other_methods:
  assumes "Method s \<noteq> POST" and "Method s \<noteq> PUT" and "Method s \<noteq> PATCH"
  shows "\<exists>d. EndBytes e s = Return d \<and>
           (\<forall>req \<in> set (sent d).
              rq_Body req = None \<and> rq_Header_Set req = AList.clearjunk (Header s)) \<and>
           (Method s = [] \<longrightarrow> resp d = None \<and> body d = [] \<and> errs d \<noteq> [] \<and> sent d = [])"
proof (cases "Errors s = []")
  case False
  then show ?thesis by (simp add: EndBytes_def)
next
  case True
  have m: "MakeRequest e ((resolve_TargetType e s)\<lparr>BounceToRawString :=
             BounceToRawString s \<or> (Data s \<noteq> [] \<and> SliceData s \<noteq> [])\<rparr>) =
    (if Method s = [] then Return (Inl (ErrorsNew ''No method specified''))
     else case http_NewRequest e (Method s) (Url s) of
            Some err \<Rightarrow> Return (Inl err)
          | None \<Rightarrow>
              Return (Inr (MakeRequest_rest ((resolve_TargetType e s)\<lparr>BounceToRawString :=
                  BounceToRawString s \<or> (Data s \<noteq> [] \<and> SliceData s \<noteq> [])\<rparr>)
                (NewRequest (Method s) (Url s) None))))"
    using assms
    by (subst MakeRequest_no_body) (simp_all add: resolve_fields cong: option.case_cong)
  show ?thesis
  proof (cases "Method s = []")
    case True
    then show ?thesis by (simp add: EndBytes_no_errors [OF \<open>Errors s = []\<close>] m)
  next
    case False
    show ?thesis
    proof (cases "http_NewRequest e (Method s) (Url s)")
      case (Some err)
      with False show ?thesis by (simp add: EndBytes_no_errors [OF \<open>Errors s = []\<close>] m)
    next
      case None
      with False show ?thesis
        by (simp add: EndBytes_no_errors [OF \<open>Errors s = []\<close>] m MakeRequest_rest_fields
            resolve_fields NewRequest_def split: sum.splits)
    qed
  qed
qed

theorem C10_no_body_for_other_methods_witness:
  \<open>Method (Send sample_env (DString ''{"a":1}'') (Get ''http://h/'' New)) \<noteq> POST \<and>
   Method (Send sample_env (DString ''{"a":1}'') (Get ''http://h/'' New)) \<noteq> PUT \<and>
   Method (Send sample_env (DString ''{"a":1}'') (Get ''http://h/'' New)) \<noteq> PATCH \<and>
   Data (Send sample_env (DString ''{"a":1}'') (Get ''http://h/'' New)) = [(''a'', DNumber ''1'')] \<and>
   EndBytes sample_env (Send sample_env (DString ''{"a":1}'') (Get ''http://h/'' New)) =
     Return \<lparr> resp = Some \<lparr> Status = ''200 OK'', Body = ''ok'' \<rparr>, body = ''ok'', errs = [],
       sent = [\<lparr> rq_Method = ''GET'', rq_Url = ''http://h/'', rq_Body = None,
                 rq_Header_Set = [], rq_Query_Add = [], rq_BasicAuth = None, rq_Cookies = [] \<rparr>],
       agent = Send sample_env (DString ''{"a":1}'') (Get ''http://h/'' New) \<rparr> \<and>
   (\<exists>d. EndBytes sample_env (Send sample_env (DString ''{"a":1}'') (Get ''http://h/'' New)) = Return d \<and>
      (\<forall>req \<in> set (sent d). rq_Body req = None \<and> rq_Header_Set req = [])) \<and>
   Method New \<noteq> POST \<and> Method New \<noteq> PUT \<and> Method New \<noteq> PATCH \<and> Method New = [] \<and>
   (\<exists>d. EndBytes sample_env New = Return d \<and> resp d = None \<and> body d = [] \<and> errs d \<noteq> [] \<and>
      sent d = [])\<close>
proof -
  have s: \<open>Send sample_env (DString ''{"a":1}'') (Get ''http://h/'' New) =
      (Get ''http://h/'' New)\<lparr>Data := [(''a'', DNumber ''1'')], RawString := ''{"a":1}''\<rparr>\<close>
    by (simp add: Send_def sample_env_def SendString_def merge_fields_def Get_def
        ClearSuperAgent_def New_def)
  have a: \<open>Method (Send sample_env (DString ''{"a":1}'') (Get ''http://h/'' New)) \<noteq> POST\<close>
    and b: \<open>Method (Send sample_env (DString ''{"a":1}'') (Get ''http://h/'' New)) \<noteq> PUT\<close>
    and c: \<open>Method (Send sample_env (DString ''{"a":1}'') (Get ''http://h/'' New)) \<noteq> PATCH\<close>
    by (simp_all add: s) (simp_all add: Get_def GET_def POST_def PUT_def PATCH_def)
  have d: \<open>Data (Send sample_env (DString ''{"a":1}'') (Get ''http://h/'' New)) =
      [(''a'', DNumber ''1'')]\<close>
    by (simp add: s)
  have h: \<open>AList.clearjunk (Header (Send sample_env (DString ''{"a":1}'') (Get ''http://h/'' New))) = []\<close>
    by (simp add: s) (simp add: Get_def ClearSuperAgent_def)
  have e: \<open>EndBytes sample_env (Send sample_env (DString ''{"a":1}'') (Get ''http://h/'' New)) =
     Return \<lparr> resp = Some \<lparr> Status = ''200 OK'', Body = ''ok'' \<rparr>, body = ''ok'', errs = [],
       sent = [\<lparr> rq_Method = ''GET'', rq_Url = ''http://h/'', rq_Body = None,
                 rq_Header_Set = [], rq_Query_Add = [], rq_BasicAuth = None, rq_Cookies = [] \<rparr>],
       agent = Send sample_env (DString ''{"a":1}'') (Get ''http://h/'' New) \<rparr>\<close>
    by (simp only: s)
      (simp add: EndBytes_def resolve_TargetType_def MakeRequest_def at_key_def Types_def
        MakeRequest_rest_def Header_Set_def NewRequest_def sample_env_def Get_def
        ClearSuperAgent_def New_def POST_def PUT_def PATCH_def GET_def)
  from C10_no_body_for_other_methods [OF a b c, of sample_env]
  have f: \<open>\<exists>d. EndBytes sample_env (Send sample_env (DString ''{"a":1}'') (Get ''http://h/'' New)) =
        Return d \<and> (\<forall>req \<in> set (sent d). rq_Body req = None \<and> rq_Header_Set req = [])\<close>
    by (simp only: h) blast
  have a0: "Method New \<noteq> POST" and b0: "Method New \<noteq> PUT" and c0: "Method New \<noteq> PATCH"
    and m0: "Method New = []"
    by (simp_all add: New_def POST_def PUT_def PATCH_def)
  from C10_no_body_for_other_methods [OF a0 b0 c0, of sample_env] m0
  have g: "\<exists>d. EndBytes sample_env New = Return d \<and> resp d = None \<and> body d = [] \<and>
      errs d \<noteq> [] \<and> sent d = []"
    by blast
  from a b c d e f a0 b0 c0 m0 g show ?thesis by (intro conjI)
qed

section \<open>Both bodies filled\<close>

lemma MakeRequest_json_raw_body:
  assumes "MakeRequest e s = Return (Inr req)" and "TargetType s = ''json''"
    and "BounceToRawString s" and "rq_Body req = Some b"
  shows "b = RawString s"
proof (cases "Method s = POST \<or> Method s = PUT \<or> Method s = PATCH")
  case True
  with assms(1,2,3) have "req = MakeRequest_rest s
      (Header_Set ''Content-Type'' ''application/json''
         (NewRequest (Method s) (Url s) (Some (RawString s))))"
    by (cases "http_NewRequest e (Method s) (Url s)") (simp_all add: MakeRequest_def)
  with assms(4) show ?thesis
    by (simp add: MakeRequest_rest_fields Header_Set_def NewRequest_def)
next
  case False
  then have "Method s \<noteq> POST" and "Method s \<noteq> PUT" and "Method s \<noteq> PATCH" by simp_all
  from MakeRequest_no_body [OF this, of e] assms(1)
  have "req = MakeRequest_rest s (NewRequest (Method s) (Url s) None)"
    by (simp split: if_splits option.splits)
  with assms(4) show ?thesis
    by (simp add: MakeRequest_rest_fields NewRequest_def)
qed

lemma EndBytes_sent:
  assumes "EndBytes e s = Return d" and "req \<in> set (sent d)"
  shows "Errors s = [] \<and>
    MakeRequest e ((resolve_TargetType e s)\<lparr>BounceToRawString :=
        BounceToRawString s \<or> (Data s \<noteq> [] \<and> SliceData s \<noteq> [])\<rparr>) = Return (Inr req)"
proof -
  have 1: "Errors s = []"
  proof (rule ccontr)
    assume "Errors s \<noteq> []"
    with assms show False by (auto simp: EndBytes_def)
  qed
  from assms show ?thesis
    unfolding EndBytes_no_errors [OF 1]
    by (auto simp: 1 split: outcome.splits sum.splits)
qed

text \<open>
  Claim C1. Take a builder whose raw body was empty (as after \<^verbatim>\<open>New\<close> or a verb call) and
  that a chain of configuration calls has brought to a state where \<open>Data\<close> and
  \<open>SliceData\<close> are both non-empty. Every dispatch that gets past the error check, and so
  every dispatch that sends a request, leaves the raw-string flag set. If the target type
  is \<^verbatim>\<open>json\<close>, the body of a request it sends is the raw body, which is the concatenation
  of the strings sent, in call order. Such a request is sent: with no recorded error, for
  \<^verbatim>\<open>POST\<close>, \<^verbatim>\<open>PUT\<close> or \<^verbatim>\<open>PATCH\<close> and a request that \<^verbatim>\<open>http.NewRequest\<close> accepts, the
  dispatch returns with one request that has this body. All this holds for every
  \<^verbatim>\<open>json.Marshal\<close>: neither body is serialized.
\<close>

theorem C1_mixed_bodies_force_raw_string:
  assumes "chain e cs s0 = Return s" and "RawString s0 = []"
    and "Data s \<noteq> []" and "SliceData s \<noteq> []"
  shows "(\<forall>d. EndBytes e s = Return d \<and> (Errors s = [] \<or> sent d \<noteq> []) \<longrightarrow>
            BounceToRawString (agent d)) \<and>
         (\<forall>d req b. EndBytes e s = Return d \<and> req \<in> set (sent d) \<and>
              TargetType (agent d) = ''json'' \<and> rq_Body req = Some b \<longrightarrow>
            b = RawString s \<and> b = concat (sent_strings cs)) \<and>
         (Errors s = [] \<and> (Method s = POST \<or> Method s = PUT \<or> Method s = PATCH) \<and>
          TargetType (resolve_TargetType e s) = ''json'' \<and>
          http_NewRequest e (Method s) (Url s) = None \<longrightarrow>
            (\<exists>d req. EndBytes e s = Return d \<and> sent d = [req] \<and>
               TargetType (agent d) = ''json'' \<and> rq_Body req = Some (RawString s)))"
proof -
  have r: "RawString s = concat (sent_strings cs)"
    using RawString_chain [OF assms(1)] assms(2) by simp
  have 0: "Errors s = []" if "EndBytes e s = Return d" and "sent d \<noteq> []" for d
  proof (rule ccontr)
    assume "Errors s \<noteq> []"
    with that show False by (auto simp: EndBytes_def)
  qed
  have 1: "BounceToRawString (agent d)"
    if "EndBytes e s = Return d" and "Errors s = [] \<or> sent d \<noteq> []" for d
  proof -
    from that 0 have "Errors s = []" by blast
    from EndBytes_agent [OF this that(1)] assms(3,4) show ?thesis by simp
  qed
  have 2: "b = RawString s \<and> b = concat (sent_strings cs)"
    if d: "EndBytes e s = Return d" and req: "req \<in> set (sent d)"
      and t: "TargetType (agent d) = ''json''" and b: "rq_Body req = Some b" for d req b
  proof -
    from EndBytes_sent [OF d req]
    have e: "Errors s = []"
      and m: "MakeRequest e ((resolve_TargetType e s)\<lparr>BounceToRawString :=
        BounceToRawString s \<or> (Data s \<noteq> [] \<and> SliceData s \<noteq> [])\<rparr>) = Return (Inr req)"
      by simp_all
    from EndBytes_agent [OF e d] t
    have "TargetType ((resolve_TargetType e s)\<lparr>BounceToRawString :=
        BounceToRawString s \<or> (Data s \<noteq> [] \<and> SliceData s \<noteq> [])\<rparr>) = ''json''"
      by simp
    from MakeRequest_json_raw_body [OF m this _ b] assms(3,4)
    have "b = RawString s" by (simp add: resolve_fields)
    with r show ?thesis by simp
  qed
  have 3: "\<exists>d req. EndBytes e s = Return d \<and> sent d = [req] \<and>
               TargetType (agent d) = ''json'' \<and> rq_Body req = Some (RawString s)"
    if e: "Errors s = []" and m: "Method s = POST \<or> Method s = PUT \<or> Method s = PATCH"
      and t: "TargetType (resolve_TargetType e s) = ''json''"
      and n: "http_NewRequest e (Method s) (Url s) = None"
  proof -
    have "MakeRequest e ((resolve_TargetType e s)\<lparr>BounceToRawString :=
             BounceToRawString s \<or> (Data s \<noteq> [] \<and> SliceData s \<noteq> [])\<rparr>) =
        Return (Inr (MakeRequest_rest ((resolve_TargetType e s)\<lparr>BounceToRawString :=
             BounceToRawString s \<or> (Data s \<noteq> [] \<and> SliceData s \<noteq> [])\<rparr>)
          (Header_Set ''Content-Type'' ''application/json''
             (NewRequest (Method s) (Url s) (Some (RawString s))))))"
      using m t n assms(3,4) by (simp add: MakeRequest_def resolve_fields)
    then show ?thesis
      using t
      by (simp add: EndBytes_no_errors [OF e] MakeRequest_rest_fields Header_Set_def
          NewRequest_def split: sum.splits)
  qed
  from 1 2 3 show ?thesis by blast
qed

theorem C1_mixed_bodies_force_raw_string_witness:
  \<open>chain sample_env [CSend (DString ''{"a":1}''), CSend (DString ''[1,2]'')] (Post ''http://h/'' New) =
     Return ((Post ''http://h/'' New)\<lparr>Data := [(''a'', DNumber ''1'')],
       SliceData := [DNumber ''1'', DNumber ''2''], RawString := ''{"a":1}[1,2]''\<rparr>) \<and>
   RawString (Post ''http://h/'' New) = [] \<and>
   Errors ((Post ''http://h/'' New)\<lparr>Data := [(''a'', DNumber ''1'')],
       SliceData := [DNumber ''1'', DNumber ''2''], RawString := ''{"a":1}[1,2]''\<rparr>) = [] \<and>
   Data ((Post ''http://h/'' New)\<lparr>Data := [(''a'', DNumber ''1'')],
       SliceData := [DNumber ''1'', DNumber ''2''], RawString := ''{"a":1}[1,2]''\<rparr>) \<noteq> [] \<and>
   SliceData ((Post ''http://h/'' New)\<lparr>Data := [(''a'', DNumber ''1'')],
       SliceData := [DNumber ''1'', DNumber ''2''], RawString := ''{"a":1}[1,2]''\<rparr>) \<noteq> [] \<and>
   EndBytes sample_env ((Post ''http://h/'' New)\<lparr>Data := [(''a'', DNumber ''1'')],
       SliceData := [DNumber ''1'', DNumber ''2''], RawString := ''{"a":1}[1,2]''\<rparr>) =
     Return \<lparr> resp = Some \<lparr> Status = ''200 OK'', Body = ''ok'' \<rparr>, body = ''ok'', errs = [],
       sent = [\<lparr> rq_Method = ''POST'', rq_Url = ''http://h/'', rq_Body = Some ''{"a":1}[1,2]'',
                 rq_Header_Set = [(''Content-Type'', ''application/json'')], rq_Query_Add = [],
                 rq_BasicAuth = None, rq_Cookies = [] \<rparr>],
       agent = (Post ''http://h/'' New)\<lparr>Data := [(''a'', DNumber ''1'')],
         SliceData := [DNumber ''1'', DNumber ''2''], BounceToRawString := True,
         RawString := ''{"a":1}[1,2]''\<rparr> \<rparr> \<and>
   BounceToRawString ((Post ''http://h/'' New)\<lparr>Data := [(''a'', DNumber ''1'')],
         SliceData := [DNumber ''1'', DNumber ''2''], BounceToRawString := True,
         RawString := ''{"a":1}[1,2]''\<rparr>) \<and>
   ''{"a":1}[1,2]'' = concat (sent_strings [CSend (DString ''{"a":1}''), CSend (DString ''[1,2]'')]) \<and>
   Method ((Post ''http://h/'' New)\<lparr>Data := [(''a'', DNumber ''1'')],
       SliceData := [DNumber ''1'', DNumber ''2''], RawString := ''{"a":1}[1,2]''\<rparr>) = POST \<and>
   TargetType (resolve_TargetType sample_env ((Post ''http://h/'' New)\<lparr>Data := [(''a'', DNumber ''1'')],
       SliceData := [DNumber ''1'', DNumber ''2''], RawString := ''{"a":1}[1,2]''\<rparr>)) = ''json'' \<and>
   http_NewRequest sample_env ''POST'' ''http://h/'' = None \<and>
   (\<exists>d req. EndBytes sample_env ((Post ''http://h/'' New)\<lparr>Data := [(''a'', DNumber ''1'')],
       SliceData := [DNumber ''1'', DNumber ''2''], RawString := ''{"a":1}[1,2]''\<rparr>) = Return d \<and>
      sent d = [req] \<and> TargetType (agent d) = ''json'' \<and> rq_Body req = Some ''{"a":1}[1,2]'')\<close>
proof -
  have a: \<open>chain sample_env [CSend (DString ''{"a":1}''), CSend (DString ''[1,2]'')]
      (Post ''http://h/'' New) =
     Return ((Post ''http://h/'' New)\<lparr>Data := [(''a'', DNumber ''1'')],
       SliceData := [DNumber ''1'', DNumber ''2''], RawString := ''{"a":1}[1,2]''\<rparr>)\<close>
    by (simp add: Send_def sample_env_def SendString_def SendSlice_def merge_fields_def Post_def
        ClearSuperAgent_def New_def)
  have b: "RawString (Post ''http://h/'' New) = []"
    by (simp add: Post_def ClearSuperAgent_def)
  have c: \<open>Errors ((Post ''http://h/'' New)\<lparr>Data := [(''a'', DNumber ''1'')],
       SliceData := [DNumber ''1'', DNumber ''2''], RawString := ''{"a":1}[1,2]''\<rparr>) = []\<close>
    by (simp add: Post_def ClearSuperAgent_def)
  have d: \<open>Data ((Post ''http://h/'' New)\<lparr>Data := [(''a'', DNumber ''1'')],
       SliceData := [DNumber ''1'', DNumber ''2''], RawString := ''{"a":1}[1,2]''\<rparr>) \<noteq> []\<close>
    by simp
  have e: \<open>SliceData ((Post ''http://h/'' New)\<lparr>Data := [(''a'', DNumber ''1'')],
       SliceData := [DNumber ''1'', DNumber ''2''], RawString := ''{"a":1}[1,2]''\<rparr>) \<noteq> []\<close>
    by simp
  have f: \<open>EndBytes sample_env ((Post ''http://h/'' New)\<lparr>Data := [(''a'', DNumber ''1'')],
       SliceData := [DNumber ''1'', DNumber ''2''], RawString := ''{"a":1}[1,2]''\<rparr>) =
     Return \<lparr> resp = Some \<lparr> Status = ''200 OK'', Body = ''ok'' \<rparr>, body = ''ok'', errs = [],
       sent = [\<lparr> rq_Method = ''POST'', rq_Url = ''http://h/'', rq_Body = Some ''{"a":1}[1,2]'',
                 rq_Header_Set = [(''Content-Type'', ''application/json'')], rq_Query_Add = [],
                 rq_BasicAuth = None, rq_Cookies = [] \<rparr>],
       agent = (Post ''http://h/'' New)\<lparr>Data := [(''a'', DNumber ''1'')],
         SliceData := [DNumber ''1'', DNumber ''2''], BounceToRawString := True,
         RawString := ''{"a":1}[1,2]''\<rparr> \<rparr>\<close>
    by (simp add: EndBytes_def resolve_TargetType_def MakeRequest_def at_key_def Types_def
        MakeRequest_rest_def Header_Set_def NewRequest_def sample_env_def Post_def
        ClearSuperAgent_def New_def POST_def PUT_def PATCH_def)
  note t = C1_mixed_bodies_force_raw_string [OF a b d e]
  from t c f
  have \<open>BounceToRawString (agent \<lparr> resp = Some \<lparr> Status = ''200 OK'', Body = ''ok'' \<rparr>,
       body = ''ok'', errs = [],
       sent = [\<lparr> rq_Method = ''POST'', rq_Url = ''http://h/'', rq_Body = Some ''{"a":1}[1,2]'',
                 rq_Header_Set = [(''Content-Type'', ''application/json'')], rq_Query_Add = [],
                 rq_BasicAuth = None, rq_Cookies = [] \<rparr>],
       agent = (Post ''http://h/'' New)\<lparr>Data := [(''a'', DNumber ''1'')],
         SliceData := [DNumber ''1'', DNumber ''2''], BounceToRawString := True,
         RawString := ''{"a":1}[1,2]''\<rparr> \<rparr>)\<close>
    by blast
  then have g: \<open>BounceToRawString ((Post ''http://h/'' New)\<lparr>Data := [(''a'', DNumber ''1'')],
         SliceData := [DNumber ''1'', DNumber ''2''], BounceToRawString := True,
         RawString := ''{"a":1}[1,2]''\<rparr>)\<close>
    by simp
  have i1: \<open>\<lparr> rq_Method = ''POST'', rq_Url = ''http://h/'', rq_Body = Some ''{"a":1}[1,2]'',
        rq_Header_Set = [(''Content-Type'', ''application/json'')], rq_Query_Add = [],
        rq_BasicAuth = None, rq_Cookies = [] \<rparr> \<in>
      set (sent \<lparr> resp = Some \<lparr> Status = ''200 OK'', Body = ''ok'' \<rparr>,
       body = ''ok'', errs = [],
       sent = [\<lparr> rq_Method = ''POST'', rq_Url = ''http://h/'', rq_Body = Some ''{"a":1}[1,2]'',
                 rq_Header_Set = [(''Content-Type'', ''application/json'')], rq_Query_Add = [],
                 rq_BasicAuth = None, rq_Cookies = [] \<rparr>],
       agent = (Post ''http://h/'' New)\<lparr>Data := [(''a'', DNumber ''1'')],
         SliceData := [DNumber ''1'', DNumber ''2''], BounceToRawString := True,
         RawString := ''{"a":1}[1,2]''\<rparr> \<rparr>)\<close>
    by simp
  have i2: \<open>TargetType (agent \<lparr> resp = Some \<lparr> Status = ''200 OK'', Body = ''ok'' \<rparr>,
       body = ''ok'', errs = [],
       sent = [\<lparr> rq_Method = ''POST'', rq_Url = ''http://h/'', rq_Body = Some ''{"a":1}[1,2]'',
                 rq_Header_Set = [(''Content-Type'', ''application/json'')], rq_Query_Add = [],
                 rq_BasicAuth = None, rq_Cookies = [] \<rparr>],
       agent = (Post ''http://h/'' New)\<lparr>Data := [(''a'', DNumber ''1'')],
         SliceData := [DNumber ''1'', DNumber ''2''], BounceToRawString := True,
         RawString := ''{"a":1}[1,2]''\<rparr> \<rparr>) = ''json''\<close>
    by (simp add: Post_def ClearSuperAgent_def)
  have i3: \<open>rq_Body \<lparr> rq_Method = ''POST'', rq_Url = ''http://h/'', rq_Body = Some ''{"a":1}[1,2]'',
        rq_Header_Set = [(''Content-Type'', ''application/json'')], rq_Query_Add = [],
        rq_BasicAuth = None, rq_Cookies = [] \<rparr> = Some ''{"a":1}[1,2]''\<close>
    by simp
  from t f i1 i2 i3
  have h: \<open>''{"a":1}[1,2]'' =
      concat (sent_strings [CSend (DString ''{"a":1}''), CSend (DString ''[1,2]'')])\<close>
    by blast
  have m: \<open>Method ((Post ''http://h/'' New)\<lparr>Data := [(''a'', DNumber ''1'')],
       SliceData := [DNumber ''1'', DNumber ''2''], RawString := ''{"a":1}[1,2]''\<rparr>) = POST\<close>
    by (simp add: Post_def)
  have u: \<open>Url ((Post ''http://h/'' New)\<lparr>Data := [(''a'', DNumber ''1'')],
       SliceData := [DNumber ''1'', DNumber ''2''], RawString := ''{"a":1}[1,2]''\<rparr>) = ''http://h/''\<close>
    by (simp add: Post_def)
  have r: \<open>RawString ((Post ''http://h/'' New)\<lparr>Data := [(''a'', DNumber ''1'')],
       SliceData := [DNumber ''1'', DNumber ''2''], RawString := ''{"a":1}[1,2]''\<rparr>) = ''{"a":1}[1,2]''\<close>
    by simp
  have j: \<open>TargetType (resolve_TargetType sample_env ((Post ''http://h/'' New)\<lparr>Data :=
       [(''a'', DNumber ''1'')], SliceData := [DNumber ''1'', DNumber ''2''],
       RawString := ''{"a":1}[1,2]''\<rparr>)) = ''json''\<close>
    by (simp add: resolve_TargetType_def at_key_def Types_def sample_env_def Post_def
        ClearSuperAgent_def New_def)
  have n: "http_NewRequest sample_env ''POST'' ''http://h/'' = None"
    by (simp add: sample_env_def)
  have n': \<open>http_NewRequest sample_env
      (Method ((Post ''http://h/'' New)\<lparr>Data := [(''a'', DNumber ''1'')],
         SliceData := [DNumber ''1'', DNumber ''2''], RawString := ''{"a":1}[1,2]''\<rparr>))
      (Url ((Post ''http://h/'' New)\<lparr>Data := [(''a'', DNumber ''1'')],
         SliceData := [DNumber ''1'', DNumber ''2''], RawString := ''{"a":1}[1,2]''\<rparr>)) = None\<close>
    by (simp add: sample_env_def)
  from t c m j n'
  have \<open>\<exists>d req. EndBytes sample_env ((Post ''http://h/'' New)\<lparr>Data := [(''a'', DNumber ''1'')],
       SliceData := [DNumber ''1'', DNumber ''2''], RawString := ''{"a":1}[1,2]''\<rparr>) = Return d \<and>
      sent d = [req] \<and> TargetType (agent d) = ''json'' \<and>
      rq_Body req = Some (RawString ((Post ''http://h/'' New)\<lparr>Data := [(''a'', DNumber ''1'')],
       SliceData := [DNumber ''1'', DNumber ''2''], RawString := ''{"a":1}[1,2]''\<rparr>))\<close>
    by blast
  then have k: \<open>\<exists>d req. EndBytes sample_env ((Post ''http://h/'' New)\<lparr>Data :=
       [(''a'', DNumber ''1'')], SliceData := [DNumber ''1'', DNumber ''2''],
       RawString := ''{"a":1}[1,2]''\<rparr>) = Return d \<and>
      sent d = [req] \<and> TargetType (agent d) = ''json'' \<and> rq_Body req = Some ''{"a":1}[1,2]''\<close>
    by (simp only: r)
  from a b c d e f g h m j n k show ?thesis by (intro conjI)
qed

end
